theory Spec2Isabelle
  imports Complex_Main
begin

section \<open>Data model\<close>

text \<open>
  The location service of the application is a class of static fields and static
  methods over three platform collaborators: the geolocation provider, the application
  lifecycle signal and the alert surface. The embedding keeps the static fields and the
  collaborators' registries in one record, \<open>world\<close>, which every method takes and
  returns; a method that can throw returns the thrown value on the left of a sum,
  together with the world as it stands at the throw. Everything a caller can observe
  besides the fields (console output, alerts, handler invocations) is appended to the
  \<open>trace\<close> of the world, in program order.

  JavaScript numbers that are only stored and handed on (latitude, longitude, accuracy)
  are \<open>real\<close>; dates and platform timestamps are milliseconds as \<open>int\<close>.
\<close>

datatype LocationErrorType = PERMISSION_DENIED | LOCATION_UNAVAILABLE | TIMEOUT | UNKNOWN

record LocationError =
  type :: LocationErrorType
  message :: string
  code :: "int option"

text \<open>
  The platform's error object, read through \<open>error.code\<close> and \<open>error.message\<close>
  only. \<open>None\<close> is a field that is \<open>undefined\<close>.
\<close>

record GeolocationError =
  error_code :: "int option"
  error_message :: "string option"

text \<open>
  A value that is thrown or that rejects a promise: an \<open>Error\<close> with its message,
  a \<open>LocationError\<close> object (which is not an instance of \<open>Error\<close>), or any other
  value.
\<close>

datatype thrown = JsError string | LocErr LocationError | NonError string

record UserLocation =
  latitude :: real
  longitude :: real
  accuracy :: real
  timestamp :: int

text \<open>The platform's position object: \<open>position.coords\<close> and \<open>position.timestamp\<close>.\<close>

record GeoPosition =
  coords_latitude :: real
  coords_longitude :: real
  coords_accuracy :: real
  position_timestamp :: int

text \<open>
  A subscriber's handler is a closure of the caller. The embedding gives it a name, by
  which its invocations are recognised in the trace, and a body that says, for each
  argument, whether the call throws and what. A handler does not call back into the
  service while it runs.
\<close>

record handler =
  hname :: nat
  hbody :: "UserLocation \<Rightarrow> thrown option"

record LocationCallback =
  id' :: string
  callback :: handler

datatype event =
    ConsoleWarn string
  | ConsoleError string
  | AlertShown string string "string list"
  | Called nat UserLocation

record world =
  watchId :: "nat option"
  callbacks :: "LocationCallback list"
  isInitialized :: bool
  appStateSubscription :: "nat option"
  lastKnownLocation :: "UserLocation option"
  activeWatches :: "nat list"
  nextWatchId :: nat
  appStateListeners :: "nat list"
  nextListener :: nat
  trace :: "event list"

text \<open>The static initialisers of the class, on a platform with nothing registered.\<close>

definition initialWorld :: world where
  "initialWorld =
     \<lparr>watchId = None, callbacks = [], isInitialized = False, appStateSubscription = None,
      lastKnownLocation = None, activeWatches = [], nextWatchId = 0,
      appStateListeners = [], nextListener = 0, trace = []\<rparr>"

definition emit :: "event \<Rightarrow> world \<Rightarrow> world" where
  "emit e st = st\<lparr>trace := trace st @ [e]\<rparr>"

section \<open>Platform collaborators\<close>

text \<open>
  \<open>Geolocation.watchPosition\<close> registers a watch and returns its handle;
  \<open>Geolocation.clearWatch\<close> unregisters the watch of a handle.
\<close>

definition watchPosition :: "world \<Rightarrow> nat \<times> world" where
  "watchPosition st =
     (nextWatchId st,
      st\<lparr>activeWatches := activeWatches st @ [nextWatchId st],
         nextWatchId := Suc (nextWatchId st)\<rparr>)"

definition clearWatch :: "nat \<Rightarrow> world \<Rightarrow> world" where
  "clearWatch w st = st\<lparr>activeWatches := removeAll w (activeWatches st)\<rparr>"

section \<open>The location service\<close>

definition mapGeolocationError :: "GeolocationError \<Rightarrow> LocationError" where
  "mapGeolocationError error =
     (if error_code error = Some 1 then
        \<lparr>type = PERMISSION_DENIED, message = ''Location permission denied'',
         code = error_code error\<rparr>
      else if error_code error = Some 2 then
        \<lparr>type = LOCATION_UNAVAILABLE, message = ''Location unavailable'',
         code = error_code error\<rparr>
      else if error_code error = Some 3 then
        \<lparr>type = TIMEOUT, message = ''Location request timed out'',
         code = error_code error\<rparr>
      else
        \<lparr>type = UNKNOWN,
         message = (case error_message error of
                      None \<Rightarrow> ''Unknown location error''
                    | Some m \<Rightarrow> if m = [] then ''Unknown location error'' else m),
         code = error_code error\<rparr>)"

definition showLocationError :: "LocationError \<Rightarrow> world \<Rightarrow> world" where
  "showLocationError error st =
     (let (title, msg) =
        (case type error of
           PERMISSION_DENIED \<Rightarrow>
             (''Permission Required'',
              ''Please enable location permissions in your device settings.'')
         | LOCATION_UNAVAILABLE \<Rightarrow>
             (''Location Error'',
              ''Unable to determine your location. Please check your GPS settings.'')
         | TIMEOUT \<Rightarrow>
             (''Location Error'', ''Location request timed out. Please try again.'')
         | UNKNOWN \<Rightarrow> (''Location Error'', message error))
      in emit (AlertShown title msg [''OK'']) st)"

text \<open>
  Calling a handler: the call is recorded, then the body decides whether it throws.
\<close>

definition call :: "handler \<Rightarrow> UserLocation \<Rightarrow> world \<Rightarrow> (thrown + unit) \<times> world" where
  "call h location st =
     (case hbody h location of
        Some e \<Rightarrow> (Inl e, emit (Called (hname h) location) st)
      | None \<Rightarrow> (Inr (), emit (Called (hname h) location) st))"

text \<open>
  \<open>Array.prototype.forEach\<close>: the body runs on each element in index order, and a
  throw of the body ends the loop and leaves it.
\<close>

fun forEach ::
  "('a \<Rightarrow> world \<Rightarrow> (thrown + unit) \<times> world) \<Rightarrow> 'a list \<Rightarrow> world \<Rightarrow> (thrown + unit) \<times> world"
where
  "forEach f [] st = (Inr (), st)"
| "forEach f (x # xs) st =
     (case f x st of
        (Inl e, st') \<Rightarrow> (Inl e, st')
      | (Inr u, st') \<Rightarrow> forEach f xs st')"

definition notifyOne :: "UserLocation \<Rightarrow> LocationCallback \<Rightarrow> world \<Rightarrow> (thrown + unit) \<times> world" where
  "notifyOne location c st =
     (case call (callback c) location st of
        (Inl e, st') \<Rightarrow> (Inr (), emit (ConsoleError ''Error in location callback:'') st')
      | (Inr u, st') \<Rightarrow> (Inr (), st'))"

definition notifyCallbacks :: "UserLocation \<Rightarrow> world \<Rightarrow> (thrown + unit) \<times> world" where
  "notifyCallbacks location st = forEach (notifyOne location) (callbacks st) st"

definition stopLocationTracking :: "world \<Rightarrow> world" where
  "stopLocationTracking st =
     (case watchId st of
        Some w \<Rightarrow> (clearWatch w st)\<lparr>watchId := None\<rparr>
      | None \<Rightarrow> st)"

text \<open>
  \<open>startLocationTracking\<close> runs to the end of the promise's executor before it
  returns the pending promise: the prior watch is stopped, the new one is registered and
  its handle stored. The promise is settled later by the callbacks of the watch, which
  are \<open>onWatchPosition\<close> and \<open>onWatchError\<close> below.
\<close>

definition startLocationTracking :: "world \<Rightarrow> world" where
  "startLocationTracking st =
     (let st1 = (if watchId st \<noteq> None then stopLocationTracking st else st);
          (w, st2) = watchPosition st1
      in st2\<lparr>watchId := Some w\<rparr>)"

datatype promise = Pending | Resolved | Rejected LocationError

text \<open>\<open>resolve\<close> and \<open>reject\<close> settle a promise once; later calls change nothing.\<close>

definition settle :: "promise \<Rightarrow> promise \<Rightarrow> promise" where
  "settle outcome p = (case p of Pending \<Rightarrow> outcome | _ \<Rightarrow> p)"

definition toUserLocation :: "GeoPosition \<Rightarrow> UserLocation" where
  "toUserLocation position =
     \<lparr>latitude = coords_latitude position, longitude = coords_longitude position,
      accuracy = coords_accuracy position, timestamp = position_timestamp position\<rparr>"

text \<open>
  The success callback of the watch, with the promise of its
  \<open>startLocationTracking\<close> call. A throw of \<open>notifyCallbacks\<close> would leave the
  callback before \<open>resolve\<close>.
\<close>

definition onWatchPosition :: "GeoPosition \<Rightarrow> promise \<Rightarrow> world \<Rightarrow> (thrown + promise) \<times> world" where
  "onWatchPosition position p st =
     (let location = toUserLocation position;
          st1 = st\<lparr>lastKnownLocation := Some location\<rparr>
      in case notifyCallbacks location st1 of
           (Inl e, st2) \<Rightarrow> (Inl e, st2)
         | (Inr u, st2) \<Rightarrow> (Inr (settle Resolved p), st2))"

definition onWatchError :: "GeolocationError \<Rightarrow> promise \<Rightarrow> world \<Rightarrow> (thrown + promise) \<times> world" where
  "onWatchError error p st =
     (let st1 = emit (ConsoleError ''Location tracking error:'') st;
          locationError = mapGeolocationError error;
          st2 = showLocationError locationError st1
      in (Inr (settle (Rejected locationError) p), st2))"

datatype delivery = Position GeoPosition | Failure GeolocationError

definition deliver :: "delivery \<Rightarrow> promise \<Rightarrow> world \<Rightarrow> (thrown + promise) \<times> world" where
  "deliver d p st =
     (case d of
        Position position \<Rightarrow> onWatchPosition position p st
      | Failure error \<Rightarrow> onWatchError error p st)"

text \<open>
  \<open>getCurrentLocation\<close>, with the one delivery the platform makes for the request.
\<close>

definition getCurrentLocation :: "delivery \<Rightarrow> world \<Rightarrow> (thrown + UserLocation) \<times> world" where
  "getCurrentLocation d st =
     (case d of
        Position position \<Rightarrow>
          (let location = toUserLocation position
           in (Inr location, st\<lparr>lastKnownLocation := Some location\<rparr>))
      | Failure error \<Rightarrow>
          (Inl (LocErr (mapGeolocationError error)), emit (ConsoleError ''Location error:'') st))"

subsection \<open>Subscriptions\<close>

text \<open>
  \<open>Number.prototype.toString()\<close> of an integer: its decimal digits, after a minus
  sign when it is negative.
\<close>

definition digit :: "nat \<Rightarrow> char" where
  "digit d = ''0123456789'' ! d"

function digits :: "nat \<Rightarrow> string" where
  "digits n = (if n < 10 then [digit n] else digits (n div 10) @ [digit (n mod 10)])"
  by pat_completeness auto
termination
  by (relation "measure (\<lambda>n. n)") auto

declare digits.simps [simp del]

definition toString :: "int \<Rightarrow> string" where
  "toString n = (if n < 0 then CHR ''-'' # digits (nat (- n)) else digits (nat n))"

text \<open>\<open>s.substr(start, length)\<close> for a start and a length that are not negative.\<close>

definition substr :: "string \<Rightarrow> nat \<Rightarrow> nat \<Rightarrow> string" where
  "substr s start len = take len (drop start s)"

text \<open>
  The id of a subscription, from the reading \<open>now\<close> of \<open>Date.now()\<close> and the text
  \<open>random36\<close> of \<open>Math.random().toString(36)\<close>.
\<close>

definition newId :: "int \<Rightarrow> string \<Rightarrow> string" where
  "newId now random36 = toString now @ substr random36 2 9"

definition addLocationCallback ::
  "int \<Rightarrow> string \<Rightarrow> handler \<Rightarrow> world \<Rightarrow> (thrown + string) \<times> world"
where
  "addLocationCallback now random36 cb st =
     (let ident = newId now random36;
          st1 = st\<lparr>callbacks := callbacks st @ [\<lparr>id' = ident, callback = cb\<rparr>]\<rparr>
      in case lastKnownLocation st1 of
           Some location \<Rightarrow>
             (case call cb location st1 of
                (Inl e, st2) \<Rightarrow> (Inl e, st2)
              | (Inr u, st2) \<Rightarrow> (Inr ident, st2))
         | None \<Rightarrow> (Inr ident, st1))"

definition removeLocationCallback :: "string \<Rightarrow> world \<Rightarrow> world" where
  "removeLocationCallback callbackId st =
     st\<lparr>callbacks := filter (\<lambda>item. id' item \<noteq> callbackId) (callbacks st)\<rparr>"

definition clearAllCallbacks :: "world \<Rightarrow> world" where
  "clearAllCallbacks st = st\<lparr>callbacks := []\<rparr>"

definition getLastKnownLocation :: "world \<Rightarrow> UserLocation option" where
  "getLastKnownLocation st = lastKnownLocation st"

subsection \<open>Lifecycle\<close>

text \<open>
  \<open>AppState.addEventListener\<close> either throws or registers the listener and returns
  its subscription; \<open>remove()\<close> of the subscription unregisters it.
\<close>

definition setupAppStateListener :: "thrown option \<Rightarrow> world \<Rightarrow> (thrown + unit) \<times> world" where
  "setupAppStateListener failure st =
     (case failure of
        Some e \<Rightarrow> (Inl e, st)
      | None \<Rightarrow>
          (Inr (),
           st\<lparr>appStateListeners := appStateListeners st @ [nextListener st],
              nextListener := Suc (nextListener st),
              appStateSubscription := Some (nextListener st)\<rparr>))"

definition removeAppStateListener :: "world \<Rightarrow> world" where
  "removeAppStateListener st =
     (case appStateSubscription st of
        Some l \<Rightarrow>
          st\<lparr>appStateListeners := removeAll l (appStateListeners st),
             appStateSubscription := None\<rparr>
      | None \<Rightarrow> st)"

text \<open>
  The listener installed by \<open>setupAppStateListener\<close>, up to the return of
  \<open>startLocationTracking\<close>; a later rejection of that promise is logged.
\<close>

definition appStateListener :: "string \<Rightarrow> world \<Rightarrow> world" where
  "appStateListener nextAppState st =
     (if nextAppState = ''active'' \<and> isInitialized st \<and> watchId st = None
      then startLocationTracking st else st)"

definition cleanup :: "world \<Rightarrow> world" where
  "cleanup st =
     (removeAppStateListener (clearAllCallbacks (stopLocationTracking st)))
       \<lparr>isInitialized := False, lastKnownLocation := None\<rparr>"

text \<open>
  \<open>requestLocationPermission\<close>. On iOS the platform answers the authorization
  request through one of two callbacks. On Android \<open>PermissionsAndroid.check\<close> and
  \<open>PermissionsAndroid.request\<close> each resolve or throw; the result of the request is
  compared with \<open>PermissionsAndroid.RESULTS.GRANTED\<close>.
\<close>

datatype permissionFlow =
    IOS bool
  | Android "thrown + bool" "thrown + string"

definition GRANTED :: string where
  "GRANTED = ''granted''"

definition requestLocationPermission :: "permissionFlow \<Rightarrow> world \<Rightarrow> bool \<times> world" where
  "requestLocationPermission flow st =
     (case flow of
        IOS authorized \<Rightarrow>
          (if authorized then (True, st)
           else (False, emit (ConsoleWarn ''iOS location permission denied:'') st))
      | Android checkResult granted \<Rightarrow>
          (case checkResult of
             Inl err \<Rightarrow> (False, emit (ConsoleWarn ''Error requesting location permission:'') st)
           | Inr True \<Rightarrow> (True, st)
           | Inr False \<Rightarrow>
               (case granted of
                  Inl err \<Rightarrow>
                    (False, emit (ConsoleWarn ''Error requesting location permission:'') st)
                | Inr g \<Rightarrow> (g = GRANTED, st))))"

text \<open>
  What the platform does while \<open>initialize\<close> waits: how the permission flow goes, the
  first delivery of the new watch if there is one, and whether installing the lifecycle
  listener throws.
\<close>

record environment =
  permission :: permissionFlow
  firstDelivery :: "delivery option"
  addEventListenerThrows :: "thrown option"

text \<open>
  How an asynchronous method ends: its promise fulfils, rejects with a value, or never
  settles.
\<close>

datatype completion = Fulfilled | RejectedWith thrown | NeverSettles

text \<open>
  \<open>await this.startLocationTracking()\<close>: the executor runs, then the first delivery
  of the watch settles the promise.
\<close>

definition awaitTracking :: "delivery option \<Rightarrow> world \<Rightarrow> promise \<times> world" where
  "awaitTracking first st =
     (let st1 = startLocationTracking st
      in case first of
           None \<Rightarrow> (Pending, st1)
         | Some d \<Rightarrow>
             (case deliver d Pending st1 of
                (Inl e, st2) \<Rightarrow> (Pending, st2)
              | (Inr p, st2) \<Rightarrow> (p, st2)))"

definition initializeBody :: "environment \<Rightarrow> world \<Rightarrow> completion \<times> world" where
  "initializeBody env st =
     (let (hasPermission, st1) = requestLocationPermission (permission env) st
      in if hasPermission then
           (case awaitTracking (firstDelivery env) st1 of
              (Pending, st2) \<Rightarrow> (NeverSettles, st2)
            | (Rejected e, st2) \<Rightarrow> (RejectedWith (LocErr e), st2)
            | (Resolved, st2) \<Rightarrow>
                (case setupAppStateListener (addEventListenerThrows env) st2 of
                   (Inl e, st3) \<Rightarrow> (RejectedWith e, st3)
                 | (Inr u, st3) \<Rightarrow> (Fulfilled, st3\<lparr>isInitialized := True\<rparr>)))
         else (RejectedWith (JsError ''Location permission denied''), st1))"

definition initialize :: "environment \<Rightarrow> world \<Rightarrow> completion \<times> world" where
  "initialize env st =
     (if isInitialized st then
        (Fulfilled, emit (ConsoleWarn ''LocationService already initialized'') st)
      else
        (case initializeBody env st of
           (RejectedWith error, st') \<Rightarrow>
             (RejectedWith error, emit (ConsoleError ''Failed to initialize LocationService:'') st')
         | (c, st') \<Rightarrow> (c, st')))"

section \<open>The location actions\<close>

record LocationData =
  data_latitude :: real
  data_longitude :: real

definition createUserLocationWithTimestamp :: "int \<Rightarrow> LocationData \<Rightarrow> UserLocation" where
  "createUserLocationWithTimestamp now location =
     \<lparr>latitude = data_latitude location, longitude = data_longitude location,
      accuracy = 0, timestamp = now\<rparr>"

text \<open>
  The payload creator of \<open>updateUserLocation\<close>: \<open>now\<close> is the value of
  \<open>new Date()\<close> at the call, \<open>updateLocation\<close> is the backend call, which resolves
  or rejects for the location it is sent. The result is the returned location or the
  value handed to \<open>rejectWithValue\<close>, with the console output.
\<close>

datatype thunkResult = Returned UserLocation | RejectWithValue string

definition updateUserLocation ::
  "int \<Rightarrow> (UserLocation \<Rightarrow> thrown + unit) \<Rightarrow> LocationData \<Rightarrow> thunkResult \<times> event list"
where
  "updateUserLocation now updateLocation locationData =
     (let userLocation = createUserLocationWithTimestamp now locationData
      in case updateLocation userLocation of
           Inr u \<Rightarrow> (Returned userLocation, [])
         | Inl error \<Rightarrow>
             (RejectWithValue
                (case error of
                   JsError m \<Rightarrow> m
                 | _ \<Rightarrow> ''Failed to update location''),
              [ConsoleError ''Failed to update user location:'']))"

section \<open>Observations on worlds\<close>

text \<open>The handler invocations of a trace, in order: which handler, with which argument.\<close>

fun callsOf :: "event list \<Rightarrow> (nat \<times> UserLocation) list" where
  "callsOf [] = []"
| "callsOf (Called n l # es) = (n, l) # callsOf es"
| "callsOf (e # es) = callsOf es"

text \<open>What notifying one subscriber adds to the trace.\<close>

definition notifyEvents :: "UserLocation \<Rightarrow> LocationCallback \<Rightarrow> event list" where
  "notifyEvents location c =
     Called (hname (callback c)) location #
       (case hbody (callback c) location of
          Some e \<Rightarrow> [ConsoleError ''Error in location callback:'']
        | None \<Rightarrow> [])"

text \<open>Sequences of calls to \<open>startLocationTracking\<close> and \<open>stopLocationTracking\<close>.\<close>

datatype operation = Start | Stop

fun step :: "operation \<Rightarrow> world \<Rightarrow> world" where
  "step Start st = startLocationTracking st"
| "step Stop st = stopLocationTracking st"

definition run :: "operation list \<Rightarrow> world \<Rightarrow> world" where
  "run ops st = foldl (\<lambda>s operation. step operation s) st ops"

text \<open>
  The watches registered with the platform are exactly the one whose handle the service
  holds, if it holds one.
\<close>

definition watchInv :: "world \<Rightarrow> bool" where
  "watchInv st = (activeWatches st = (case watchId st of Some w \<Rightarrow> [w] | None \<Rightarrow> []))"

text \<open>The same for the lifecycle listener.\<close>

definition listenerInv :: "world \<Rightarrow> bool" where
  "listenerInv st =
     (appStateListeners st = (case appStateSubscription st of Some l \<Rightarrow> [l] | None \<Rightarrow> []))"

text \<open>
  Whether a permission flow ends in a grant. The result of
  \<open>requestLocationPermission\<close> does not depend on the world it runs in.
\<close>

definition grants :: "permissionFlow \<Rightarrow> bool" where
  "grants flow = fst (requestLocationPermission flow initialWorld)"

text \<open>The static fields of the service and the platform's registries, without the trace.\<close>

definition fields ::
  "world \<Rightarrow> nat option \<times> LocationCallback list \<times> bool \<times> nat option \<times> UserLocation option \<times>
     nat list \<times> nat \<times> nat list \<times> nat"
where
  "fields st =
     (watchId st, callbacks st, isInitialized st, appStateSubscription st,
      lastKnownLocation st, activeWatches st, nextWatchId st, appStateListeners st,
      nextListener st)"

text \<open>
  Four environments of \<open>initialize\<close>: permission denied on Android; permission
  granted and the first delivery of the watch an error with code 2; permission granted,
  a first position delivered and the installation of the lifecycle listener throwing;
  and everything succeeding.
\<close>

definition deniedEnvironment :: environment where
  "deniedEnvironment =
     \<lparr>permission = Android (Inr False) (Inr ''denied''),
      firstDelivery = None, addEventListenerThrows = None\<rparr>"

definition failingEnvironment :: environment where
  "failingEnvironment =
     \<lparr>permission = IOS True,
      firstDelivery = Some (Failure \<lparr>error_code = Some 2, error_message = None\<rparr>),
      addEventListenerThrows = None\<rparr>"

definition listenerFailingEnvironment :: environment where
  "listenerFailingEnvironment =
     \<lparr>permission = IOS True,
      firstDelivery = Some (Position \<lparr>coords_latitude = 37, coords_longitude = - 122,
                                     coords_accuracy = 5, position_timestamp = 1000\<rparr>),
      addEventListenerThrows = Some (JsError ''no AppState'')\<rparr>"

definition grantingEnvironment :: environment where
  "grantingEnvironment =
     \<lparr>permission = IOS True,
      firstDelivery = Some (Position \<lparr>coords_latitude = 37, coords_longitude = - 122,
                                     coords_accuracy = 5, position_timestamp = 1000\<rparr>),
      addEventListenerThrows = None\<rparr>"

section \<open>Notification\<close>

lemma callsOf_append: "callsOf (xs @ ys) = callsOf xs @ callsOf ys"
  by (induction xs rule: callsOf.induct) simp_all

lemma notifyOne_eq:
  "notifyOne location c st = (Inr (), st\<lparr>trace := trace st @ notifyEvents location c\<rparr>)"
  by (simp add: notifyOne_def call_def emit_def notifyEvents_def split: option.split)

lemma forEach_notifyOne:
  "forEach (notifyOne location) cs st =
     (Inr (), st\<lparr>trace := trace st @ concat (map (notifyEvents location) cs)\<rparr>)"
proof (induction cs arbitrary: st)
  case Nil
  show ?case by simp
next
  case (Cons c cs)
  have head: "notifyOne location c st = (Inr (), st\<lparr>trace := trace st @ notifyEvents location c\<rparr>)"
    by (rule notifyOne_eq)
  show ?case by (simp add: head Cons.IH)
qed

lemma callsOf_notifyEvents:
  "callsOf (concat (map (notifyEvents location) cs)) =
     map (\<lambda>c. (hname (callback c), location)) cs"
  by (induction cs) (simp_all add: callsOf_append notifyEvents_def split: option.split)

lemma notifyCallbacks_eq:
  "notifyCallbacks location st =
     (Inr (), st\<lparr>trace := trace st @ concat (map (notifyEvents location) (callbacks st))\<rparr>)"
  by (simp add: notifyCallbacks_def forEach_notifyOne)

lemma onWatchPosition_eq:
  "onWatchPosition position p st =
     (Inr (settle Resolved p),
      st\<lparr>lastKnownLocation := Some (toUserLocation position),
         trace := trace st @
           concat (map (notifyEvents (toUserLocation position)) (callbacks st))\<rparr>)"
  by (simp add: onWatchPosition_def Let_def notifyCallbacks_eq)

lemma addLocationCallback_known:
  "lastKnownLocation st = Some location \<Longrightarrow>
   addLocationCallback now r cb st =
     ((case hbody cb location of Some e \<Rightarrow> Inl e | None \<Rightarrow> Inr (newId now r)),
      st\<lparr>callbacks := callbacks st @ [\<lparr>id' = newId now r, callback = cb\<rparr>],
         trace := trace st @ [Called (hname cb) location]\<rparr>)"
  by (simp add: addLocationCallback_def call_def emit_def Let_def split: option.split)

lemma addLocationCallback_unknown:
  "lastKnownLocation st = None \<Longrightarrow>
   addLocationCallback now r cb st =
     (Inr (newId now r),
      st\<lparr>callbacks := callbacks st @ [\<lparr>id' = newId now r, callback = cb\<rparr>]\<rparr>)"
  by (simp add: addLocationCallback_def Let_def)

lemma addLocationCallback_callbacks:
  "callbacks (snd (addLocationCallback now r cb st)) =
     callbacks st @ [\<lparr>id' = newId now r, callback = cb\<rparr>]"
  by (cases "lastKnownLocation st")
    (simp_all add: addLocationCallback_known addLocationCallback_unknown)

text \<open>
  Claim C1. Whatever the subscription list and the position, \<open>notifyCallbacks\<close> returns
  normally and the handler invocations it adds are one per subscription, each with that
  position, in the order of the list; this holds for handlers that throw as well, since
  the statement is about every handler. A successful delivery of the watch stores the
  position as last known and makes exactly these invocations. The order of the list is
  the order of registration, since \<open>addLocationCallback\<close> appends at its end.
\<close>

theorem notifyCallbacks_each_once_in_order:
  "fst (notifyCallbacks location st) = Inr () \<and>
   callsOf (trace (snd (notifyCallbacks location st))) =
     callsOf (trace st) @ map (\<lambda>c. (hname (callback c), location)) (callbacks st) \<and>
   fst (onWatchPosition position p st) = Inr (settle Resolved p) \<and>
   lastKnownLocation (snd (onWatchPosition position p st)) = Some (toUserLocation position) \<and>
   callsOf (trace (snd (onWatchPosition position p st))) =
     callsOf (trace st) @
       map (\<lambda>c. (hname (callback c), toUserLocation position)) (callbacks st) \<and>
   callbacks (snd (addLocationCallback now r cb st)) =
     callbacks st @ [\<lparr>id' = newId now r, callback = cb\<rparr>]"
  by (simp add: notifyCallbacks_eq onWatchPosition_eq callsOf_append callsOf_notifyEvents
      addLocationCallback_callbacks)

text \<open>
  Two subscribers, the first of which throws: both are called, and the throw is logged
  between the two calls.
\<close>

theorem notifyCallbacks_each_once_in_order_witness:
  "trace (snd (notifyCallbacks
      \<lparr>latitude = 37, longitude = - 122, accuracy = 5, timestamp = 1000\<rparr>
      (initialWorld\<lparr>callbacks :=
         [\<lparr>id' = ''a'', callback = \<lparr>hname = 1, hbody = (\<lambda>l. Some (JsError ''boom''))\<rparr>\<rparr>,
          \<lparr>id' = ''b'', callback = \<lparr>hname = 2, hbody = (\<lambda>l. None)\<rparr>\<rparr>]\<rparr>))) =
     [Called 1 \<lparr>latitude = 37, longitude = - 122, accuracy = 5, timestamp = 1000\<rparr>,
      ConsoleError ''Error in location callback:'',
      Called 2 \<lparr>latitude = 37, longitude = - 122, accuracy = 5, timestamp = 1000\<rparr>] \<and>
   callsOf (trace (snd (notifyCallbacks
      \<lparr>latitude = 37, longitude = - 122, accuracy = 5, timestamp = 1000\<rparr>
      (initialWorld\<lparr>callbacks :=
         [\<lparr>id' = ''a'', callback = \<lparr>hname = 1, hbody = (\<lambda>l. Some (JsError ''boom''))\<rparr>\<rparr>,
          \<lparr>id' = ''b'', callback = \<lparr>hname = 2, hbody = (\<lambda>l. None)\<rparr>\<rparr>]\<rparr>)))) =
     [(1, \<lparr>latitude = 37, longitude = - 122, accuracy = 5, timestamp = 1000\<rparr>),
      (2, \<lparr>latitude = 37, longitude = - 122, accuracy = 5, timestamp = 1000\<rparr>)]"
  using notifyCallbacks_each_once_in_order
    [of "\<lparr>latitude = 37, longitude = - 122, accuracy = 5, timestamp = 1000\<rparr>"
        "initialWorld\<lparr>callbacks :=
         [\<lparr>id' = ''a'', callback = \<lparr>hname = 1, hbody = (\<lambda>l. Some (JsError ''boom''))\<rparr>\<rparr>,
          \<lparr>id' = ''b'', callback = \<lparr>hname = 2, hbody = (\<lambda>l. None)\<rparr>\<rparr>]\<rparr>"]
  by (simp add: notifyCallbacks_def notifyOne_def call_def emit_def initialWorld_def)

section \<open>Error mapping\<close>

text \<open>
  Claim C2, as amended. \<open>mapGeolocationError\<close> is a function of the platform error's
  code and message: code 1 gives \<open>PERMISSION_DENIED\<close>, code 2
  \<open>LOCATION_UNAVAILABLE\<close>, code 3 \<open>TIMEOUT\<close>, and every other code, a missing one
  included, gives \<open>UNKNOWN\<close> with the platform's message when that is present and not
  empty, and with \<open>Unknown location error\<close> when the message is missing or is the empty
  string. The code of the result is the code of the platform error.
\<close>

theorem mapGeolocationError_cases:
  "(error_code error = Some 1 \<longrightarrow> type (mapGeolocationError error) = PERMISSION_DENIED) \<and>
   (error_code error = Some 2 \<longrightarrow> type (mapGeolocationError error) = LOCATION_UNAVAILABLE) \<and>
   (error_code error = Some 3 \<longrightarrow> type (mapGeolocationError error) = TIMEOUT) \<and>
   (error_code error \<notin> {Some 1, Some 2, Some 3} \<longrightarrow>
      type (mapGeolocationError error) = UNKNOWN \<and>
      message (mapGeolocationError error) =
        (case error_message error of
           Some m \<Rightarrow> if m \<noteq> [] then m else ''Unknown location error''
         | None \<Rightarrow> ''Unknown location error'')) \<and>
   code (mapGeolocationError error) = error_code error"
  by (simp add: mapGeolocationError_def split: option.split)

theorem mapGeolocationError_cases_witness:
  "type (mapGeolocationError \<lparr>error_code = Some 1, error_message = None\<rparr>) = PERMISSION_DENIED \<and>
   type (mapGeolocationError \<lparr>error_code = Some 2, error_message = None\<rparr>) = LOCATION_UNAVAILABLE \<and>
   type (mapGeolocationError \<lparr>error_code = Some 3, error_message = None\<rparr>) = TIMEOUT \<and>
   type (mapGeolocationError \<lparr>error_code = Some 7, error_message = Some ''GPS off''\<rparr>) = UNKNOWN \<and>
   message (mapGeolocationError \<lparr>error_code = Some 7, error_message = Some ''GPS off''\<rparr>) = ''GPS off'' \<and>
   code (mapGeolocationError \<lparr>error_code = Some 7, error_message = Some ''GPS off''\<rparr>) = Some 7"
  using mapGeolocationError_cases [of "\<lparr>error_code = Some 1, error_message = None\<rparr>"]
    mapGeolocationError_cases [of "\<lparr>error_code = Some 2, error_message = None\<rparr>"]
    mapGeolocationError_cases [of "\<lparr>error_code = Some 3, error_message = None\<rparr>"]
    mapGeolocationError_cases [of "\<lparr>error_code = Some 7, error_message = Some ''GPS off''\<rparr>"]
  by simp

text \<open>
  A platform error with code 7 whose message is present and is the empty string: the
  result does not carry that message but the fallback.
\<close>

theorem mapGeolocationError_empty_message:
  "error_message \<lparr>error_code = Some 7, error_message = Some ''''\<rparr> = Some '''' \<and>
   type (mapGeolocationError \<lparr>error_code = Some 7, error_message = Some ''''\<rparr>) = UNKNOWN \<and>
   message (mapGeolocationError \<lparr>error_code = Some 7, error_message = Some ''''\<rparr>) =
     ''Unknown location error'' \<and>
   message (mapGeolocationError \<lparr>error_code = Some 7, error_message = Some ''''\<rparr>) \<noteq> ''''"
  by (simp add: mapGeolocationError_def)

section \<open>The watch\<close>

lemma watchInv_stop: "watchInv st \<Longrightarrow> watchInv (stopLocationTracking st)"
  by (simp add: watchInv_def stopLocationTracking_def clearWatch_def split: option.splits)

lemma stop_fields:
  "watchInv st \<Longrightarrow> activeWatches (stopLocationTracking st) = []"
  "watchId (stopLocationTracking st) = None"
  "nextWatchId (stopLocationTracking st) = nextWatchId st"
  by (simp_all add: watchInv_def stopLocationTracking_def clearWatch_def split: option.splits)

lemma start_fields:
  "watchId (startLocationTracking st) = Some (nextWatchId st)"
  "activeWatches (startLocationTracking st) =
     (case watchId st of Some w \<Rightarrow> removeAll w (activeWatches st) | None \<Rightarrow> activeWatches st) @
       [nextWatchId st]"
  "nextWatchId (startLocationTracking st) = Suc (nextWatchId st)"
  by (simp_all add: startLocationTracking_def stopLocationTracking_def clearWatch_def
      watchPosition_def Let_def split: option.splits)

lemma watchInv_start: "watchInv st \<Longrightarrow> watchInv (startLocationTracking st)"
  by (simp add: watchInv_def start_fields split: option.splits)

lemma watchInv_step: "watchInv st \<Longrightarrow> watchInv (step operation st)"
  by (cases operation) (simp_all add: watchInv_start watchInv_stop)

lemma watchInv_run: "watchInv st \<Longrightarrow> watchInv (run ops st)"
  unfolding run_def
  by (induction ops arbitrary: st) (simp_all add: watchInv_step)

lemma run_snoc: "run (ops @ [operation]) st = step operation (run ops st)"
  by (simp add: run_def)

lemma watchInv_length: "watchInv st \<Longrightarrow> length (activeWatches st) \<le> 1"
  by (simp add: watchInv_def split: option.splits)

text \<open>
  Claim C3. In every world \<open>startLocationTracking\<close> unregisters the watch of the handle
  it holds and then registers the new one. From a world in which the registered watches
  are exactly the held one, every sequence of \<open>startLocationTracking\<close> and
  \<open>stopLocationTracking\<close> calls leads to a world of that kind again, so at most one
  watch is registered and \<open>watchId\<close> is non-null exactly when one is; after a start,
  and after two starts in succession, exactly one watch is registered, which is the held
  one, and after a stop none is and \<open>watchId\<close> is null.
\<close>

theorem at_most_one_watch:
  "activeWatches (startLocationTracking st) =
     (case watchId st of Some w \<Rightarrow> removeAll w (activeWatches st) | None \<Rightarrow> activeWatches st) @
       [nextWatchId st] \<and>
   (watchInv st \<longrightarrow>
      watchInv (run ops st) \<and>
      length (activeWatches (run ops st)) \<le> 1 \<and>
      (watchId (run ops st) = None) = (activeWatches (run ops st) = []) \<and>
      activeWatches (run (ops @ [Start]) st) = [nextWatchId (run ops st)] \<and>
      watchId (run (ops @ [Start]) st) = Some (nextWatchId (run ops st)) \<and>
      activeWatches (run (ops @ [Start, Start]) st) = [Suc (nextWatchId (run ops st))] \<and>
      watchId (run (ops @ [Start, Start]) st) = Some (Suc (nextWatchId (run ops st))) \<and>
      activeWatches (run (ops @ [Stop]) st) = [] \<and>
      watchId (run (ops @ [Stop]) st) = None)"
proof -
  have first: "activeWatches (startLocationTracking st) =
     (case watchId st of Some w \<Rightarrow> removeAll w (activeWatches st) | None \<Rightarrow> activeWatches st) @
       [nextWatchId st]"
    by (rule start_fields)
  have rest: "watchInv (run ops st) \<and>
      length (activeWatches (run ops st)) \<le> 1 \<and>
      (watchId (run ops st) = None) = (activeWatches (run ops st) = []) \<and>
      activeWatches (run (ops @ [Start]) st) = [nextWatchId (run ops st)] \<and>
      watchId (run (ops @ [Start]) st) = Some (nextWatchId (run ops st)) \<and>
      activeWatches (run (ops @ [Start, Start]) st) = [Suc (nextWatchId (run ops st))] \<and>
      watchId (run (ops @ [Start, Start]) st) = Some (Suc (nextWatchId (run ops st))) \<and>
      activeWatches (run (ops @ [Stop]) st) = [] \<and>
      watchId (run (ops @ [Stop]) st) = None" if inv: "watchInv st"
  proof -
    let ?s = "run ops st"
    have i: "watchInv ?s" using inv by (rule watchInv_run)
    have aw: "activeWatches ?s = (case watchId ?s of Some w \<Rightarrow> [w] | None \<Rightarrow> [])"
      using i by (simp add: watchInv_def)
    have one: "activeWatches (startLocationTracking ?s) = [nextWatchId ?s]"
      using aw by (simp add: start_fields split: option.splits)
    have two: "run (ops @ [Start, Start]) st = startLocationTracking (startLocationTracking ?s)"
      by (simp add: run_def)
    have aw1: "activeWatches (startLocationTracking (startLocationTracking ?s)) =
        [Suc (nextWatchId ?s)]"
      using one by (simp add: start_fields)
    show ?thesis
      using i aw one aw1
      by (simp add: run_snoc two watchInv_length start_fields stop_fields split: option.splits)
  qed
  from first rest show ?thesis by blast
qed

theorem at_most_one_watch_witness:
  "watchInv initialWorld \<and>
   activeWatches (run [Start, Start] initialWorld) = [1] \<and>
   watchId (run [Start, Start] initialWorld) = Some 1 \<and>
   activeWatches (run [Start, Start, Stop] initialWorld) = [] \<and>
   watchId (run [Start, Start, Stop] initialWorld) = None"
proof -
  have inv: "watchInv initialWorld" by (simp add: watchInv_def initialWorld_def)
  have n0: "nextWatchId (run [] initialWorld) = 0" by (simp add: run_def initialWorld_def)
  show ?thesis
    using inv at_most_one_watch [of initialWorld "[]"]
      at_most_one_watch [of initialWorld "[Start, Start]"] n0
    by simp
qed

section \<open>initialize\<close>

lemma requestLocationPermission_fst:
  "fst (requestLocationPermission flow st) = grants flow"
  by (simp add: grants_def requestLocationPermission_def split: permissionFlow.split sum.split bool.split)

lemma requestLocationPermission_fields:
  "fields (snd (requestLocationPermission flow st)) = fields st"
  by (simp add: fields_def requestLocationPermission_def emit_def
      split: permissionFlow.split sum.split bool.split)

lemma showLocationError_fields: "fields (showLocationError e st) = fields st"
  by (simp add: fields_def showLocationError_def emit_def Let_def split: LocationErrorType.split)

lemma awaitTracking_failure:
  "awaitTracking (Some (Failure error)) st =
     (Rejected (mapGeolocationError error),
      showLocationError (mapGeolocationError error)
        (emit (ConsoleError ''Location tracking error:'') (startLocationTracking st)))"
  by (simp add: awaitTracking_def deliver_def onWatchError_def settle_def Let_def)

lemma awaitTracking_position:
  "awaitTracking (Some (Position position)) st =
     (Resolved,
      (startLocationTracking st)
        \<lparr>lastKnownLocation := Some (toUserLocation position),
         trace := trace (startLocationTracking st) @
           concat (map (notifyEvents (toUserLocation position))
             (callbacks (startLocationTracking st)))\<rparr>)"
  by (simp add: awaitTracking_def deliver_def onWatchPosition_eq settle_def Let_def)

lemma awaitTracking_none: "awaitTracking None st = (Pending, startLocationTracking st)"
  by (simp add: awaitTracking_def Let_def)

lemma start_other_fields:
  "callbacks (startLocationTracking st) = callbacks st"
  "isInitialized (startLocationTracking st) = isInitialized st"
  "appStateSubscription (startLocationTracking st) = appStateSubscription st"
  "lastKnownLocation (startLocationTracking st) = lastKnownLocation st"
  "appStateListeners (startLocationTracking st) = appStateListeners st"
  "nextListener (startLocationTracking st) = nextListener st"
  "trace (startLocationTracking st) = trace st"
  by (simp_all add: startLocationTracking_def stopLocationTracking_def clearWatch_def
      watchPosition_def Let_def split: option.splits)

lemma permission_fields:
  "watchId (snd (requestLocationPermission flow st)) = watchId st"
  "callbacks (snd (requestLocationPermission flow st)) = callbacks st"
  "isInitialized (snd (requestLocationPermission flow st)) = isInitialized st"
  "appStateSubscription (snd (requestLocationPermission flow st)) = appStateSubscription st"
  "lastKnownLocation (snd (requestLocationPermission flow st)) = lastKnownLocation st"
  "activeWatches (snd (requestLocationPermission flow st)) = activeWatches st"
  "nextWatchId (snd (requestLocationPermission flow st)) = nextWatchId st"
  "appStateListeners (snd (requestLocationPermission flow st)) = appStateListeners st"
  "nextListener (snd (requestLocationPermission flow st)) = nextListener st"
  using requestLocationPermission_fields [of flow st] by (simp_all add: fields_def)

lemma showLocationError_projections:
  "watchId (showLocationError e st) = watchId st"
  "callbacks (showLocationError e st) = callbacks st"
  "isInitialized (showLocationError e st) = isInitialized st"
  "appStateSubscription (showLocationError e st) = appStateSubscription st"
  "lastKnownLocation (showLocationError e st) = lastKnownLocation st"
  "activeWatches (showLocationError e st) = activeWatches st"
  "nextWatchId (showLocationError e st) = nextWatchId st"
  "appStateListeners (showLocationError e st) = appStateListeners st"
  "nextListener (showLocationError e st) = nextListener st"
  using showLocationError_fields [of e st] by (simp_all add: fields_def)

lemma emit_projections:
  "watchId (emit e st) = watchId st"
  "callbacks (emit e st) = callbacks st"
  "isInitialized (emit e st) = isInitialized st"
  "appStateSubscription (emit e st) = appStateSubscription st"
  "lastKnownLocation (emit e st) = lastKnownLocation st"
  "activeWatches (emit e st) = activeWatches st"
  "nextWatchId (emit e st) = nextWatchId st"
  "appStateListeners (emit e st) = appStateListeners st"
  "nextListener (emit e st) = nextListener st"
  by (simp_all add: emit_def)

lemma initialize_denied:
  assumes "\<not> isInitialized st" and "\<not> grants (permission env)"
  shows "initialize env st =
    (RejectedWith (JsError ''Location permission denied''),
     emit (ConsoleError ''Failed to initialize LocationService:'')
       (snd (requestLocationPermission (permission env) st)))"
  using assms
  by (simp add: initialize_def initializeBody_def split_beta requestLocationPermission_fst)

lemma initialize_tracking_failure:
  assumes "\<not> isInitialized st" and "grants (permission env)"
    and "firstDelivery env = Some (Failure error)"
  shows "initialize env st =
    (RejectedWith (LocErr (mapGeolocationError error)),
     emit (ConsoleError ''Failed to initialize LocationService:'')
       (showLocationError (mapGeolocationError error)
          (emit (ConsoleError ''Location tracking error:'')
             (startLocationTracking (snd (requestLocationPermission (permission env) st))))))"
  using assms
  by (simp add: initialize_def initializeBody_def split_beta requestLocationPermission_fst
      awaitTracking_failure)

lemma initialize_listener_failure:
  assumes "\<not> isInitialized st" and "grants (permission env)"
    and "firstDelivery env = Some (Position position)"
    and "addEventListenerThrows env = Some e"
  shows "initialize env st =
    (RejectedWith e,
     emit (ConsoleError ''Failed to initialize LocationService:'')
       (snd (awaitTracking (Some (Position position))
          (snd (requestLocationPermission (permission env) st)))))"
  using assms
  by (simp add: initialize_def initializeBody_def split_beta requestLocationPermission_fst
      awaitTracking_position setupAppStateListener_def)

lemma initialize_never:
  assumes "\<not> isInitialized st" and "grants (permission env)"
    and "firstDelivery env = None"
  shows "initialize env st =
    (NeverSettles, startLocationTracking (snd (requestLocationPermission (permission env) st)))"
  using assms
  by (simp add: initialize_def initializeBody_def split_beta requestLocationPermission_fst
      awaitTracking_none)

lemma initialize_success:
  assumes "\<not> isInitialized st" and "grants (permission env)"
    and "firstDelivery env = Some (Position position)"
    and "addEventListenerThrows env = None"
  shows "initialize env st =
    (Fulfilled,
     (snd (setupAppStateListener None
        (snd (awaitTracking (Some (Position position))
          (snd (requestLocationPermission (permission env) st))))))\<lparr>isInitialized := True\<rparr>)"
  using assms
  by (simp add: initialize_def initializeBody_def split_beta requestLocationPermission_fst
      awaitTracking_position setupAppStateListener_def)

lemma initialize_guard:
  "isInitialized st \<Longrightarrow>
   initialize env st = (Fulfilled, emit (ConsoleWarn ''LocationService already initialized'') st)"
  by (simp add: initialize_def)

lemma initialize_rejected_uninitialized:
  assumes "fst (initialize env st) = RejectedWith e"
  shows "\<not> isInitialized (snd (initialize env st))"
proof (cases "isInitialized st")
  case True
  with assms show ?thesis by (simp add: initialize_guard)
next
  case uninit: False
  show ?thesis
  proof (cases "grants (permission env)")
    case False
    with uninit show ?thesis
      by (simp add: initialize_denied emit_projections permission_fields)
  next
    case granted: True
    show ?thesis
    proof (cases "firstDelivery env")
      case None
      with uninit granted assms show ?thesis by (simp add: initialize_never)
    next
      case (Some d)
      show ?thesis
      proof (cases d)
        case (Failure error)
        with uninit granted Some show ?thesis
          by (simp add: initialize_tracking_failure emit_projections
              showLocationError_projections start_other_fields permission_fields)
      next
        case (Position position)
        show ?thesis
        proof (cases "addEventListenerThrows env")
          case None
          with uninit granted Some Position assms show ?thesis
            by (simp add: initialize_success)
        next
          case (Some e')
          with uninit granted \<open>firstDelivery env = Some d\<close> Position show ?thesis
            by (simp add: initialize_listener_failure emit_projections awaitTracking_position
                start_other_fields permission_fields)
        qed
      qed
    qed
  qed
qed

text \<open>
  Claim C4, as amended. \<open>initialize\<close> on an initialised service logs a warning and
  returns without running the sequence. Whenever it rejects, \<open>isInitialized\<close> is false
  afterwards. When permission is denied it rejects with the error
  \<open>Location permission denied\<close> and no field of the service or of the platform has
  changed. When the first outcome of tracking is an error it rejects with the mapped
  error, and when installing the lifecycle listener throws it rejects with what was
  thrown; in both cases no listener is installed and the subscriptions are as before,
  but the watch that \<open>startLocationTracking\<close> registered stays registered and its
  handle stays in \<open>watchId\<close>, and in the second case the delivered position stays as
  the last known one.
\<close>

theorem initialize_fails_closed:
  "(isInitialized st \<longrightarrow>
      initialize env st =
        (Fulfilled, emit (ConsoleWarn ''LocationService already initialized'') st)) \<and>
   (\<forall>e. fst (initialize env st) = RejectedWith e \<longrightarrow> \<not> isInitialized (snd (initialize env st))) \<and>
   (\<not> isInitialized st \<and> \<not> grants (permission env) \<longrightarrow>
      fst (initialize env st) = RejectedWith (JsError ''Location permission denied'') \<and>
      fields (snd (initialize env st)) = fields st) \<and>
   (\<not> isInitialized st \<and> grants (permission env) \<and>
    firstDelivery env = Some (Failure error) \<longrightarrow>
      fst (initialize env st) = RejectedWith (LocErr (mapGeolocationError error)) \<and>
      \<not> isInitialized (snd (initialize env st)) \<and>
      appStateSubscription (snd (initialize env st)) = appStateSubscription st \<and>
      appStateListeners (snd (initialize env st)) = appStateListeners st \<and>
      callbacks (snd (initialize env st)) = callbacks st \<and>
      lastKnownLocation (snd (initialize env st)) = lastKnownLocation st \<and>
      watchId (snd (initialize env st)) = Some (nextWatchId st) \<and>
      nextWatchId st \<in> set (activeWatches (snd (initialize env st)))) \<and>
   (\<not> isInitialized st \<and> grants (permission env) \<and>
    firstDelivery env = Some (Position position) \<and> addEventListenerThrows env = Some e' \<longrightarrow>
      fst (initialize env st) = RejectedWith e' \<and>
      \<not> isInitialized (snd (initialize env st)) \<and>
      appStateSubscription (snd (initialize env st)) = appStateSubscription st \<and>
      appStateListeners (snd (initialize env st)) = appStateListeners st \<and>
      callbacks (snd (initialize env st)) = callbacks st \<and>
      lastKnownLocation (snd (initialize env st)) = Some (toUserLocation position) \<and>
      watchId (snd (initialize env st)) = Some (nextWatchId st) \<and>
      nextWatchId st \<in> set (activeWatches (snd (initialize env st))))"
proof -
  have guard: "isInitialized st \<longrightarrow>
      initialize env st =
        (Fulfilled, emit (ConsoleWarn ''LocationService already initialized'') st)"
    by (simp add: initialize_guard)
  have closed: "\<forall>e. fst (initialize env st) = RejectedWith e \<longrightarrow>
      \<not> isInitialized (snd (initialize env st))"
    using initialize_rejected_uninitialized by blast
  have denied: "\<not> isInitialized st \<and> \<not> grants (permission env) \<longrightarrow>
      fst (initialize env st) = RejectedWith (JsError ''Location permission denied'') \<and>
      fields (snd (initialize env st)) = fields st"
    by (simp add: initialize_denied fields_def emit_projections permission_fields)
  have tracking: "\<not> isInitialized st \<and> grants (permission env) \<and>
    firstDelivery env = Some (Failure error) \<longrightarrow>
      fst (initialize env st) = RejectedWith (LocErr (mapGeolocationError error)) \<and>
      \<not> isInitialized (snd (initialize env st)) \<and>
      appStateSubscription (snd (initialize env st)) = appStateSubscription st \<and>
      appStateListeners (snd (initialize env st)) = appStateListeners st \<and>
      callbacks (snd (initialize env st)) = callbacks st \<and>
      lastKnownLocation (snd (initialize env st)) = lastKnownLocation st \<and>
      watchId (snd (initialize env st)) = Some (nextWatchId st) \<and>
      nextWatchId st \<in> set (activeWatches (snd (initialize env st)))"
    by (simp add: initialize_tracking_failure emit_projections showLocationError_projections
        start_other_fields start_fields permission_fields)
  have listener: "\<not> isInitialized st \<and> grants (permission env) \<and>
    firstDelivery env = Some (Position position) \<and> addEventListenerThrows env = Some e' \<longrightarrow>
      fst (initialize env st) = RejectedWith e' \<and>
      \<not> isInitialized (snd (initialize env st)) \<and>
      appStateSubscription (snd (initialize env st)) = appStateSubscription st \<and>
      appStateListeners (snd (initialize env st)) = appStateListeners st \<and>
      callbacks (snd (initialize env st)) = callbacks st \<and>
      lastKnownLocation (snd (initialize env st)) = Some (toUserLocation position) \<and>
      watchId (snd (initialize env st)) = Some (nextWatchId st) \<and>
      nextWatchId st \<in> set (activeWatches (snd (initialize env st)))"
    by (simp add: initialize_listener_failure emit_projections awaitTracking_position
        start_other_fields start_fields permission_fields)
  from guard closed denied tracking listener show ?thesis by blast
qed

theorem initialize_fails_closed_witness:
  "initialize grantingEnvironment (initialWorld\<lparr>isInitialized := True\<rparr>) =
     (Fulfilled,
      initialWorld\<lparr>isInitialized := True,
        trace := [ConsoleWarn ''LocationService already initialized'']\<rparr>) \<and>
   fst (initialize deniedEnvironment initialWorld) =
     RejectedWith (JsError ''Location permission denied'') \<and>
   fields (snd (initialize deniedEnvironment initialWorld)) = fields initialWorld \<and>
   fst (initialize failingEnvironment initialWorld) =
     RejectedWith (LocErr \<lparr>type = LOCATION_UNAVAILABLE, message = ''Location unavailable'',
                           code = Some 2\<rparr>) \<and>
   \<not> isInitialized (snd (initialize failingEnvironment initialWorld)) \<and>
   appStateSubscription (snd (initialize failingEnvironment initialWorld)) = None \<and>
   watchId (snd (initialize failingEnvironment initialWorld)) = Some 0 \<and>
   fst (initialize listenerFailingEnvironment initialWorld) =
     RejectedWith (JsError ''no AppState'') \<and>
   \<not> isInitialized (snd (initialize listenerFailingEnvironment initialWorld)) \<and>
   appStateSubscription (snd (initialize listenerFailingEnvironment initialWorld)) = None \<and>
   watchId (snd (initialize listenerFailingEnvironment initialWorld)) = Some 0"
proof -
  have g1: "grants (permission grantingEnvironment)"
    by (simp add: grants_def grantingEnvironment_def requestLocationPermission_def)
  have g2: "\<not> grants (permission deniedEnvironment)"
    by (simp add: grants_def deniedEnvironment_def requestLocationPermission_def GRANTED_def)
  have g3: "grants (permission failingEnvironment)"
    by (simp add: grants_def failingEnvironment_def requestLocationPermission_def)
  have g4: "grants (permission listenerFailingEnvironment)"
    by (simp add: grants_def listenerFailingEnvironment_def requestLocationPermission_def)
  have d3: "firstDelivery failingEnvironment =
      Some (Failure \<lparr>error_code = Some 2, error_message = None\<rparr>)"
    by (simp add: failingEnvironment_def)
  have d4: "firstDelivery listenerFailingEnvironment =
      Some (Position \<lparr>coords_latitude = 37, coords_longitude = - 122,
                       coords_accuracy = 5, position_timestamp = 1000\<rparr>) \<and>
      addEventListenerThrows listenerFailingEnvironment = Some (JsError ''no AppState'')"
    by (simp add: listenerFailingEnvironment_def)
  have u: "\<not> isInitialized initialWorld" "appStateSubscription initialWorld = None"
    "nextWatchId initialWorld = 0"
    by (simp_all add: initialWorld_def)
  have m: "mapGeolocationError \<lparr>error_code = Some 2, error_message = None\<rparr> =
      \<lparr>type = LOCATION_UNAVAILABLE, message = ''Location unavailable'', code = Some 2\<rparr>"
    by (simp add: mapGeolocationError_def)
  have e: "emit (ConsoleWarn ''LocationService already initialized'')
        (initialWorld\<lparr>isInitialized := True\<rparr>) =
      initialWorld\<lparr>isInitialized := True,
        trace := [ConsoleWarn ''LocationService already initialized'']\<rparr>"
    by (simp add: emit_def initialWorld_def)
  show ?thesis
    using g2 g3 g4 d3 d4 u m e
      initialize_fails_closed [where st = "initialWorld\<lparr>isInitialized := True\<rparr>"
        and env = grantingEnvironment]
      initialize_fails_closed [where st = initialWorld and env = deniedEnvironment]
      initialize_fails_closed [where st = initialWorld and env = failingEnvironment
        and error = "\<lparr>error_code = Some 2, error_message = None\<rparr>"]
      initialize_fails_closed [where st = initialWorld and env = listenerFailingEnvironment
        and position = "\<lparr>coords_latitude = 37, coords_longitude = - 122,
                         coords_accuracy = 5, position_timestamp = 1000\<rparr>"
        and e' = "JsError ''no AppState''"]
    by simp
qed

text \<open>
  From the initial world, with permission granted and the first delivery of the watch an
  error with code 2: \<open>initialize\<close> rejects and the service is not initialised, but the
  world is not the one before the call, since a watch is registered and held.
\<close>

theorem initialize_failure_retains_watch:
  "fst (initialize failingEnvironment initialWorld) =
     RejectedWith (LocErr \<lparr>type = LOCATION_UNAVAILABLE, message = ''Location unavailable'',
                           code = Some 2\<rparr>) \<and>
   isInitialized (snd (initialize failingEnvironment initialWorld)) = False \<and>
   watchId initialWorld = None \<and>
   activeWatches initialWorld = [] \<and>
   watchId (snd (initialize failingEnvironment initialWorld)) = Some 0 \<and>
   activeWatches (snd (initialize failingEnvironment initialWorld)) = [0]"
  by (simp add: initialize_def initializeBody_def failingEnvironment_def initialWorld_def
      requestLocationPermission_def awaitTracking_failure mapGeolocationError_def
      showLocationError_def emit_def start_fields start_other_fields)

section \<open>Subscriptions\<close>

lemma callsOf_notifyEvents_one:
  "callsOf (notifyEvents location c) = [(hname (callback c), location)]"
  by (simp add: notifyEvents_def split: option.split)

text \<open>
  Claim C5. When a last known location exists, \<open>addLocationCallback\<close> adds to the
  trace exactly one invocation of the new handler, with that location, before it returns
  (and it returns the new id when the handler does not throw); the invocations of a
  following watch delivery come after it. When there is no last known location, nothing
  is added to the trace and the new id is returned.
\<close>

theorem addLocationCallback_invokes_snapshot:
  "(lastKnownLocation st = Some location \<longrightarrow>
      trace (snd (addLocationCallback now r cb st)) = trace st @ [Called (hname cb) location] \<and>
      (hbody cb location = None \<longrightarrow> fst (addLocationCallback now r cb st) = Inr (newId now r)) \<and>
      callsOf (trace (snd (onWatchPosition position p (snd (addLocationCallback now r cb st))))) =
        callsOf (trace st) @ (hname cb, location) #
          map (\<lambda>c. (hname (callback c), toUserLocation position))
            (callbacks st @ [\<lparr>id' = newId now r, callback = cb\<rparr>])) \<and>
   (lastKnownLocation st = None \<longrightarrow>
      trace (snd (addLocationCallback now r cb st)) = trace st \<and>
      fst (addLocationCallback now r cb st) = Inr (newId now r))"
  by (simp add: addLocationCallback_known addLocationCallback_unknown onWatchPosition_eq
      callsOf_append callsOf_notifyEvents callsOf_notifyEvents_one)

theorem addLocationCallback_invokes_snapshot_witness:
  "trace (snd (addLocationCallback 1700000000000 ''0.4fzyo82mvyr''
      \<lparr>hname = 1, hbody = (\<lambda>l. None)\<rparr>
      (initialWorld\<lparr>lastKnownLocation :=
         Some \<lparr>latitude = 37, longitude = - 122, accuracy = 5, timestamp = 1000\<rparr>\<rparr>))) =
     [Called 1 \<lparr>latitude = 37, longitude = - 122, accuracy = 5, timestamp = 1000\<rparr>] \<and>
   fst (addLocationCallback 1700000000000 ''0.4fzyo82mvyr''
      \<lparr>hname = 1, hbody = (\<lambda>l. None)\<rparr>
      (initialWorld\<lparr>lastKnownLocation :=
         Some \<lparr>latitude = 37, longitude = - 122, accuracy = 5, timestamp = 1000\<rparr>\<rparr>)) =
     Inr ''17000000000004fzyo82mv'' \<and>
   trace (snd (addLocationCallback 1700000000000 ''0.4fzyo82mvyr''
      \<lparr>hname = 1, hbody = (\<lambda>l. None)\<rparr> initialWorld)) = []"
  using addLocationCallback_invokes_snapshot
    [where st = "initialWorld\<lparr>lastKnownLocation :=
         Some \<lparr>latitude = 37, longitude = - 122, accuracy = 5, timestamp = 1000\<rparr>\<rparr>"
       and location = "\<lparr>latitude = 37, longitude = - 122, accuracy = 5, timestamp = 1000\<rparr>"
       and now = 1700000000000 and r = "''0.4fzyo82mvyr''"
       and cb = "\<lparr>hname = 1, hbody = (\<lambda>l. None)\<rparr>"]
    addLocationCallback_invokes_snapshot
    [where st = initialWorld and now = 1700000000000 and r = "''0.4fzyo82mvyr''"
       and cb = "\<lparr>hname = 1, hbody = (\<lambda>l. None)\<rparr>"]
  by (simp add: initialWorld_def newId_def toString_def substr_def digit_def digits.simps)

text \<open>
  Claim C10. When a last known location exists and the new handler throws on it, the
  thrown value leaves \<open>addLocationCallback\<close>; the subscription has been appended all
  the same, and a later \<open>notifyCallbacks\<close> returns normally and invokes the handler
  again, after the older subscribers.
\<close>

theorem snapshot_throw_propagates:
  "lastKnownLocation st = Some location \<and> hbody cb location = Some e \<longrightarrow>
     fst (addLocationCallback now r cb st) = Inl e \<and>
     callbacks (snd (addLocationCallback now r cb st)) =
       callbacks st @ [\<lparr>id' = newId now r, callback = cb\<rparr>] \<and>
     fst (notifyCallbacks location' (snd (addLocationCallback now r cb st))) = Inr () \<and>
     callsOf (trace (snd (notifyCallbacks location' (snd (addLocationCallback now r cb st))))) =
       callsOf (trace st) @ [(hname cb, location)] @
         map (\<lambda>c. (hname (callback c), location')) (callbacks st) @ [(hname cb, location')]"
  by (simp add: addLocationCallback_known notifyCallbacks_eq callsOf_append callsOf_notifyEvents
      callsOf_notifyEvents_one)

theorem snapshot_throw_propagates_witness:
  "fst (addLocationCallback 1700000000000 ''0.4fzyo82mvyr''
      \<lparr>hname = 1, hbody = (\<lambda>l. Some (JsError ''boom''))\<rparr>
      (initialWorld\<lparr>lastKnownLocation :=
         Some \<lparr>latitude = 37, longitude = - 122, accuracy = 5, timestamp = 1000\<rparr>\<rparr>)) =
     Inl (JsError ''boom'') \<and>
   map id' (callbacks (snd (addLocationCallback 1700000000000 ''0.4fzyo82mvyr''
      \<lparr>hname = 1, hbody = (\<lambda>l. Some (JsError ''boom''))\<rparr>
      (initialWorld\<lparr>lastKnownLocation :=
         Some \<lparr>latitude = 37, longitude = - 122, accuracy = 5, timestamp = 1000\<rparr>\<rparr>)))) =
     [''17000000000004fzyo82mv''] \<and>
   callsOf (trace (snd (notifyCallbacks
      \<lparr>latitude = 38, longitude = - 121, accuracy = 6, timestamp = 2000\<rparr>
      (snd (addLocationCallback 1700000000000 ''0.4fzyo82mvyr''
        \<lparr>hname = 1, hbody = (\<lambda>l. Some (JsError ''boom''))\<rparr>
        (initialWorld\<lparr>lastKnownLocation :=
           Some \<lparr>latitude = 37, longitude = - 122, accuracy = 5, timestamp = 1000\<rparr>\<rparr>)))))) =
     [(1, \<lparr>latitude = 37, longitude = - 122, accuracy = 5, timestamp = 1000\<rparr>),
      (1, \<lparr>latitude = 38, longitude = - 121, accuracy = 6, timestamp = 2000\<rparr>)]"
  using snapshot_throw_propagates
    [where st = "initialWorld\<lparr>lastKnownLocation :=
         Some \<lparr>latitude = 37, longitude = - 122, accuracy = 5, timestamp = 1000\<rparr>\<rparr>"
       and location = "\<lparr>latitude = 37, longitude = - 122, accuracy = 5, timestamp = 1000\<rparr>"
       and location' = "\<lparr>latitude = 38, longitude = - 121, accuracy = 6, timestamp = 2000\<rparr>"
       and now = 1700000000000 and r = "''0.4fzyo82mvyr''"
       and cb = "\<lparr>hname = 1, hbody = (\<lambda>l. Some (JsError ''boom''))\<rparr>"
       and e = "JsError ''boom''"]
  by (simp add: initialWorld_def newId_def toString_def substr_def digit_def digits.simps)

subsection \<open>Subscription ids\<close>

lemma digit_inj: "a < 10 \<Longrightarrow> b < 10 \<Longrightarrow> digit a = digit b \<Longrightarrow> a = b"
proof -
  assume a: "a < 10" and b: "b < 10" and e: "digit a = digit b"
  have d: "distinct ''0123456789''" by simp
  have la: "a < length ''0123456789''" using a by simp
  have lb: "b < length ''0123456789''" using b by simp
  from e have "''0123456789'' ! a = ''0123456789'' ! b" by (simp only: digit_def)
  with d la lb show "a = b" by (simp only: nth_eq_iff_index_eq)
qed

lemma digit_not_minus: "d < 10 \<Longrightarrow> digit d \<noteq> CHR ''-''"
proof -
  assume d: "d < 10"
  have "digit d \<in> set ''0123456789''"
    unfolding digit_def using d by (intro nth_mem) simp
  then show ?thesis by auto
qed

lemma digits_nonempty: "digits n \<noteq> []"
  by (subst digits.simps) simp

lemma digits_last: "last (digits n) = digit (n mod 10)"
  by (subst digits.simps) simp

lemma digits_butlast: "10 \<le> n \<Longrightarrow> butlast (digits n) = digits (n div 10)"
  by (subst digits.simps) (simp add: butlast_append)

lemma digits_hd_not_minus: "hd (digits n) \<noteq> CHR ''-''"
proof (induction n rule: digits.induct)
  case (1 n)
  show ?case
  proof (cases "n < 10")
    case True
    then show ?thesis by (subst digits.simps) (simp add: digit_not_minus)
  next
    case False
    with "1" have "hd (digits (n div 10)) \<noteq> CHR ''-''" by simp
    with False show ?thesis
      by (subst digits.simps) (simp add: digits_nonempty)
  qed
qed

lemma digits_inj: "digits n = digits m \<Longrightarrow> n = m"
proof (induction n arbitrary: m rule: digits.induct)
  case (1 n)
  from "1.prems" have l: "digit (n mod 10) = digit (m mod 10)"
    by (metis digits_last)
  then have md: "n mod 10 = m mod 10" by (simp add: digit_inj)
  show ?case
  proof (cases "n < 10")
    case n: True
    show ?thesis
    proof (cases "m < 10")
      case True
      with n md show ?thesis by simp
    next
      case False
      then have "butlast (digits m) = digits (m div 10)" by (simp add: digits_butlast)
      moreover have "butlast (digits n) = []" using n by (subst digits.simps) simp
      ultimately show ?thesis using "1.prems" digits_nonempty by metis
    qed
  next
    case n: False
    show ?thesis
    proof (cases "m < 10")
      case True
      then have "butlast (digits m) = []" by (subst digits.simps) simp
      moreover have "butlast (digits n) = digits (n div 10)" using n by (simp add: digits_butlast)
      ultimately show ?thesis using "1.prems" digits_nonempty by metis
    next
      case False
      have "digits (n div 10) = digits (m div 10)"
        using n False "1.prems" by (metis digits_butlast not_less)
      with "1.IH" n have "n div 10 = m div 10" by simp
      with md show ?thesis by (metis div_mult_mod_eq)
    qed
  qed
qed

lemma toString_inj: "toString a = toString b \<Longrightarrow> a = b"
proof -
  assume e: "toString a = toString b"
  have neg: "hd (toString x) = CHR ''-''" if "x < 0" for x
    using that by (simp add: toString_def)
  have pos: "hd (toString x) \<noteq> CHR ''-''" if "\<not> x < 0" for x
    using that by (simp add: toString_def digits_hd_not_minus)
  show "a = b"
  proof (cases "a < 0")
    case True
    then have "b < 0" using e neg pos by metis
    with True e have "digits (nat (- a)) = digits (nat (- b))" by (simp add: toString_def)
    then have "nat (- a) = nat (- b)" by (rule digits_inj)
    with True \<open>b < 0\<close> show ?thesis by simp
  next
    case False
    then have "\<not> b < 0" using e neg pos by metis
    with False e have "digits (nat a) = digits (nat b)" by (simp add: toString_def)
    then have "nat a = nat b" by (rule digits_inj)
    with False \<open>\<not> b < 0\<close> show ?thesis by simp
  qed
qed

lemma newId_distinct:
  assumes "length (toString now1) = length (toString now2)"
    and "now1 \<noteq> now2 \<or> substr r1 2 9 \<noteq> substr r2 2 9"
  shows "newId now1 r1 \<noteq> newId now2 r2"
proof
  assume "newId now1 r1 = newId now2 r2"
  then have "toString now1 @ substr r1 2 9 = toString now2 @ substr r2 2 9"
    by (simp add: newId_def)
  with assms(1) have "toString now1 = toString now2 \<and> substr r1 2 9 = substr r2 2 9"
    by simp
  with assms(2) show False using toString_inj by blast
qed

text \<open>
  Claim C6, as amended. The id that \<open>addLocationCallback\<close> registers, and returns
  when it returns, is determined by the reading of \<open>Date.now()\<close> and the text of
  \<open>Math.random().toString(36)\<close>: it is the decimal reading followed by the nine
  characters of the text from its third on. Two calls whose readings have the same
  number of characters get distinct ids when the readings differ or these nine
  characters differ.
\<close>

theorem subscription_ids_distinct:
  "id' (last (callbacks (snd (addLocationCallback now1 r1 cb1 st1)))) = newId now1 r1 \<and>
   (\<forall>i. fst (addLocationCallback now1 r1 cb1 st1) = Inr i \<longrightarrow> i = newId now1 r1) \<and>
   (length (toString now1) = length (toString now2) \<and>
    (now1 \<noteq> now2 \<or> substr r1 2 9 \<noteq> substr r2 2 9) \<longrightarrow>
      newId now1 r1 \<noteq> newId now2 r2 \<and>
      id' (last (callbacks (snd (addLocationCallback now1 r1 cb1 st1)))) \<noteq>
        id' (last (callbacks (snd (addLocationCallback now2 r2 cb2 st2)))))"
proof -
  have reg: "id' (last (callbacks (snd (addLocationCallback now r cb st)))) = newId now r"
    for now r cb st
    by (simp add: addLocationCallback_callbacks)
  have ret: "\<forall>i. fst (addLocationCallback now1 r1 cb1 st1) = Inr i \<longrightarrow> i = newId now1 r1"
    by (cases "lastKnownLocation st1")
      (auto simp add: addLocationCallback_known addLocationCallback_unknown split: option.splits)
  have dist: "newId now1 r1 \<noteq> newId now2 r2"
    if "length (toString now1) = length (toString now2)"
      and "now1 \<noteq> now2 \<or> substr r1 2 9 \<noteq> substr r2 2 9"
    using that by (rule newId_distinct)
  show ?thesis using reg ret dist by simp
qed

theorem subscription_ids_distinct_witness:
  "length (toString 1700000000000) = length (toString 1700000000001) \<and>
   newId 1700000000000 ''0.4fzyo82mvyr'' \<noteq> newId 1700000000001 ''0.4fzyo82mvyr'' \<and>
   newId 1700000000000 ''0.4fzyo82mvyr'' \<noteq> newId 1700000000000 ''0.9k2b7c1xq8d''"
proof -
  have l1: "length (toString 1700000000000) = length (toString 1700000000001)"
    by (simp add: toString_def digits.simps)
  have s: "substr ''0.4fzyo82mvyr'' 2 9 \<noteq> substr ''0.9k2b7c1xq8d'' 2 9"
    by (simp add: substr_def)
  show ?thesis
    using l1 s
      subscription_ids_distinct [where ?now1.0 = 1700000000000 and ?now2.0 = 1700000000001
        and ?r1.0 = "''0.4fzyo82mvyr''" and ?r2.0 = "''0.4fzyo82mvyr''"]
      subscription_ids_distinct [where ?now1.0 = 1700000000000 and ?now2.0 = 1700000000000
        and ?r1.0 = "''0.4fzyo82mvyr''" and ?r2.0 = "''0.9k2b7c1xq8d''"]
    by simp
qed

text \<open>
  Two calls in the same millisecond whose random numbers differ from the tenth base-36
  digit on: both return the same id, and the list holds two subscriptions with it.
\<close>

theorem subscription_ids_collide:
  "''0.4fzyo82mvyr'' \<noteq> ''0.4fzyo82mvq7'' \<and>
   fst (addLocationCallback 1700000000000 ''0.4fzyo82mvyr''
      \<lparr>hname = 1, hbody = (\<lambda>l. None)\<rparr> initialWorld) = Inr ''17000000000004fzyo82mv'' \<and>
   fst (addLocationCallback 1700000000000 ''0.4fzyo82mvq7''
      \<lparr>hname = 2, hbody = (\<lambda>l. None)\<rparr>
      (snd (addLocationCallback 1700000000000 ''0.4fzyo82mvyr''
         \<lparr>hname = 1, hbody = (\<lambda>l. None)\<rparr> initialWorld))) = Inr ''17000000000004fzyo82mv'' \<and>
   map id' (callbacks (snd (addLocationCallback 1700000000000 ''0.4fzyo82mvq7''
      \<lparr>hname = 2, hbody = (\<lambda>l. None)\<rparr>
      (snd (addLocationCallback 1700000000000 ''0.4fzyo82mvyr''
         \<lparr>hname = 1, hbody = (\<lambda>l. None)\<rparr> initialWorld))))) =
     [''17000000000004fzyo82mv'', ''17000000000004fzyo82mv'']"
  by (simp add: addLocationCallback_def Let_def initialWorld_def newId_def toString_def
      substr_def digit_def digits.simps)

section \<open>cleanup\<close>

lemma cleanup_eq:
  "cleanup st =
     st\<lparr>watchId := None, callbacks := [], isInitialized := False,
        appStateSubscription := None, lastKnownLocation := None,
        activeWatches :=
          (case watchId st of Some w \<Rightarrow> removeAll w (activeWatches st) | None \<Rightarrow> activeWatches st),
        appStateListeners :=
          (case appStateSubscription st of
             Some l \<Rightarrow> removeAll l (appStateListeners st)
           | None \<Rightarrow> appStateListeners st)\<rparr>"
  by (simp add: cleanup_def stopLocationTracking_def clearWatch_def clearAllCallbacks_def
      removeAppStateListener_def split: option.splits)

lemma cleanup_idem: "cleanup (cleanup st) = cleanup st"
  by (simp add: cleanup_eq)

text \<open>
  Claim C7. After \<open>cleanup\<close>, from any world, \<open>watchId\<close> is null, the
  subscription list is empty, no lifecycle subscription is held, \<open>isInitialized\<close> is
  false and \<open>getLastKnownLocation\<close> returns null; the watch and the listener whose
  handles were held are unregistered, so none is left when they were the only ones. A
  second \<open>cleanup\<close> changes nothing. \<open>initialize\<close> after \<open>cleanup\<close>, with
  permission granted, a first position delivered and the listener installed, fulfils
  and leaves the service initialised with one fresh watch, one fresh listener, no
  subscriber and the delivered position as last known.
\<close>

theorem cleanup_reverses_initialize:
  "watchId (cleanup st) = None \<and>
   callbacks (cleanup st) = [] \<and>
   appStateSubscription (cleanup st) = None \<and>
   \<not> isInitialized (cleanup st) \<and>
   getLastKnownLocation (cleanup st) = None \<and>
   activeWatches (cleanup st) =
     (case watchId st of Some w \<Rightarrow> removeAll w (activeWatches st) | None \<Rightarrow> activeWatches st) \<and>
   appStateListeners (cleanup st) =
     (case appStateSubscription st of
        Some l \<Rightarrow> removeAll l (appStateListeners st)
      | None \<Rightarrow> appStateListeners st) \<and>
   (watchInv st \<longrightarrow> activeWatches (cleanup st) = []) \<and>
   (listenerInv st \<longrightarrow> appStateListeners (cleanup st) = []) \<and>
   cleanup (cleanup st) = cleanup st \<and>
   (grants (permission env) \<and> firstDelivery env = Some (Position position) \<and>
    addEventListenerThrows env = None \<longrightarrow>
      fst (initialize env (cleanup st)) = Fulfilled \<and>
      isInitialized (snd (initialize env (cleanup st))) \<and>
      watchId (snd (initialize env (cleanup st))) = Some (nextWatchId st) \<and>
      appStateSubscription (snd (initialize env (cleanup st))) = Some (nextListener st) \<and>
      callbacks (snd (initialize env (cleanup st))) = [] \<and>
      lastKnownLocation (snd (initialize env (cleanup st))) = Some (toUserLocation position) \<and>
      (watchInv st \<longrightarrow>
         activeWatches (snd (initialize env (cleanup st))) = [nextWatchId st]) \<and>
      (listenerInv st \<longrightarrow>
         appStateListeners (snd (initialize env (cleanup st))) = [nextListener st]))"
proof -
  have reset: "watchId (cleanup st) = None \<and>
     callbacks (cleanup st) = [] \<and>
     appStateSubscription (cleanup st) = None \<and>
     \<not> isInitialized (cleanup st) \<and>
     getLastKnownLocation (cleanup st) = None \<and>
     activeWatches (cleanup st) =
       (case watchId st of Some w \<Rightarrow> removeAll w (activeWatches st) | None \<Rightarrow> activeWatches st) \<and>
     appStateListeners (cleanup st) =
       (case appStateSubscription st of
          Some l \<Rightarrow> removeAll l (appStateListeners st)
        | None \<Rightarrow> appStateListeners st)"
    by (simp add: cleanup_eq getLastKnownLocation_def)
  have w: "activeWatches (cleanup st) = []" if "watchInv st"
    using that by (simp add: cleanup_eq watchInv_def split: option.splits)
  have l: "appStateListeners (cleanup st) = []" if "listenerInv st"
    using that by (simp add: cleanup_eq listenerInv_def split: option.splits)
  have again: "fst (initialize env (cleanup st)) = Fulfilled \<and>
      isInitialized (snd (initialize env (cleanup st))) \<and>
      watchId (snd (initialize env (cleanup st))) = Some (nextWatchId st) \<and>
      appStateSubscription (snd (initialize env (cleanup st))) = Some (nextListener st) \<and>
      callbacks (snd (initialize env (cleanup st))) = [] \<and>
      lastKnownLocation (snd (initialize env (cleanup st))) = Some (toUserLocation position) \<and>
      (watchInv st \<longrightarrow>
         activeWatches (snd (initialize env (cleanup st))) = [nextWatchId st]) \<and>
      (listenerInv st \<longrightarrow>
         appStateListeners (snd (initialize env (cleanup st))) = [nextListener st])"
    if g: "grants (permission env)" and d: "firstDelivery env = Some (Position position)"
      and a: "addEventListenerThrows env = None"
  proof -
    have u: "\<not> isInitialized (cleanup st)" by (simp add: cleanup_eq)
    have c: "watchId (cleanup st) = None" "nextWatchId (cleanup st) = nextWatchId st"
      "nextListener (cleanup st) = nextListener st" "callbacks (cleanup st) = []"
      by (simp_all add: cleanup_eq)
    show ?thesis
      using w l c
      by (simp add: initialize_success [OF u g d a] setupAppStateListener_def
          awaitTracking_position start_fields start_other_fields permission_fields)
  qed
  from reset w l again cleanup_idem [of st] show ?thesis by blast
qed

theorem cleanup_reverses_initialize_witness:
  "watchInv (snd (initialize grantingEnvironment initialWorld)) \<and>
   listenerInv (snd (initialize grantingEnvironment initialWorld)) \<and>
   isInitialized (snd (initialize grantingEnvironment initialWorld)) \<and>
   activeWatches (snd (initialize grantingEnvironment initialWorld)) = [0] \<and>
   activeWatches (cleanup (snd (initialize grantingEnvironment initialWorld))) = [] \<and>
   appStateListeners (cleanup (snd (initialize grantingEnvironment initialWorld))) = [] \<and>
   getLastKnownLocation (cleanup (snd (initialize grantingEnvironment initialWorld))) = None \<and>
   fst (initialize grantingEnvironment
          (cleanup (snd (initialize grantingEnvironment initialWorld)))) = Fulfilled \<and>
   activeWatches (snd (initialize grantingEnvironment
          (cleanup (snd (initialize grantingEnvironment initialWorld))))) = [1] \<and>
   appStateListeners (snd (initialize grantingEnvironment
          (cleanup (snd (initialize grantingEnvironment initialWorld))))) = [1]"
proof -
  let ?s = "snd (initialize grantingEnvironment initialWorld)"
  have g: "grants (permission grantingEnvironment)"
    by (simp add: grants_def grantingEnvironment_def requestLocationPermission_def)
  have d: "firstDelivery grantingEnvironment =
      Some (Position \<lparr>coords_latitude = 37, coords_longitude = - 122,
                       coords_accuracy = 5, position_timestamp = 1000\<rparr>)"
    and a: "addEventListenerThrows grantingEnvironment = None"
    by (simp_all add: grantingEnvironment_def)
  have u: "\<not> isInitialized initialWorld" by (simp add: initialWorld_def)
  have s: "watchInv ?s \<and> listenerInv ?s \<and> isInitialized ?s \<and> activeWatches ?s = [0] \<and>
      nextWatchId ?s = 1 \<and> nextListener ?s = 1 \<and> watchId ?s = Some 0 \<and>
      appStateSubscription ?s = Some 0 \<and> appStateListeners ?s = [0]"
    by (simp add: initialize_success [OF u g d a] setupAppStateListener_def
        awaitTracking_position start_fields start_other_fields permission_fields
        watchInv_def listenerInv_def)
      (simp add: initialWorld_def permission_fields)
  show ?thesis
    using s g d a
      cleanup_reverses_initialize [where st = ?s and env = grantingEnvironment
        and position = "\<lparr>coords_latitude = 37, coords_longitude = - 122,
                         coords_accuracy = 5, position_timestamp = 1000\<rparr>"]
    by simp
qed

section \<open>Errors of the watch\<close>

lemma onWatchError_eq:
  "onWatchError error p st =
     (Inr (settle (Rejected (mapGeolocationError error)) p),
      showLocationError (mapGeolocationError error)
        (emit (ConsoleError ''Location tracking error:'') st))"
  by (simp add: onWatchError_def Let_def)

text \<open>
  Claim C8. When the first delivery of the watch started by
  \<open>startLocationTracking\<close> is an error with platform code 2, the promise rejects with
  a \<open>LocationError\<close> of type \<open>LOCATION_UNAVAILABLE\<close>; the error is logged and one
  alert is shown, titled \<open>Location Error\<close>, with the message about the GPS settings;
  no handler is invoked, and the last known location and the subscriptions are as before.
\<close>

theorem first_delivery_unavailable:
  "error_code error = Some 2 \<longrightarrow>
     fst (awaitTracking (Some (Failure error)) st) =
       Rejected \<lparr>type = LOCATION_UNAVAILABLE, message = ''Location unavailable'',
                 code = Some 2\<rparr> \<and>
     fst (deliver (Failure error) Pending (startLocationTracking st)) =
       Inr (Rejected \<lparr>type = LOCATION_UNAVAILABLE, message = ''Location unavailable'',
                      code = Some 2\<rparr>) \<and>
     snd (awaitTracking (Some (Failure error)) st) =
       snd (deliver (Failure error) Pending (startLocationTracking st)) \<and>
     trace (snd (deliver (Failure error) Pending (startLocationTracking st))) =
       trace st @
         [ConsoleError ''Location tracking error:'',
          AlertShown ''Location Error''
            ''Unable to determine your location. Please check your GPS settings.'' [''OK'']] \<and>
     callsOf (trace (snd (deliver (Failure error) Pending (startLocationTracking st)))) =
       callsOf (trace st) \<and>
     lastKnownLocation (snd (deliver (Failure error) Pending (startLocationTracking st))) =
       lastKnownLocation st \<and>
     callbacks (snd (deliver (Failure error) Pending (startLocationTracking st))) =
       callbacks st"
  by (simp add: awaitTracking_failure deliver_def onWatchError_eq settle_def
      mapGeolocationError_def showLocationError_def emit_def start_other_fields callsOf_append)

theorem first_delivery_unavailable_witness:
  "fst (awaitTracking (Some (Failure \<lparr>error_code = Some 2, error_message = Some ''off''\<rparr>))
      initialWorld) =
     Rejected \<lparr>type = LOCATION_UNAVAILABLE, message = ''Location unavailable'', code = Some 2\<rparr> \<and>
   trace (snd (deliver (Failure \<lparr>error_code = Some 2, error_message = Some ''off''\<rparr>) Pending
      (startLocationTracking initialWorld))) =
     [ConsoleError ''Location tracking error:'',
      AlertShown ''Location Error''
        ''Unable to determine your location. Please check your GPS settings.'' [''OK'']] \<and>
   lastKnownLocation (snd (deliver
      (Failure \<lparr>error_code = Some 2, error_message = Some ''off''\<rparr>) Pending
      (startLocationTracking initialWorld))) = None"
  using first_delivery_unavailable
    [where error = "\<lparr>error_code = Some 2, error_message = Some ''off''\<rparr>"
       and st = initialWorld]
  by (simp add: initialWorld_def)

section \<open>updateUserLocation\<close>

text \<open>
  Claim C9. \<open>updateUserLocation\<close> builds the location with the latitude and longitude
  of its input, accuracy 0 and the time of the call. When the backend call resolves,
  the result is that location; when it rejects with an \<open>Error\<close>, the result is the
  rejection with the error's message; when it rejects with anything else, the result is
  the rejection with \<open>Failed to update location\<close>. A rejection carries a string.
\<close>

theorem updateUserLocation_result:
  "createUserLocationWithTimestamp now locationData =
     \<lparr>latitude = data_latitude locationData, longitude = data_longitude locationData,
      accuracy = 0, timestamp = now\<rparr> \<and>
   (updateLocation (createUserLocationWithTimestamp now locationData) = Inr () \<longrightarrow>
      fst (updateUserLocation now updateLocation locationData) =
        Returned (createUserLocationWithTimestamp now locationData)) \<and>
   (\<forall>m. updateLocation (createUserLocationWithTimestamp now locationData) = Inl (JsError m) \<longrightarrow>
      fst (updateUserLocation now updateLocation locationData) = RejectWithValue m) \<and>
   (\<forall>e. updateLocation (createUserLocationWithTimestamp now locationData) = Inl e \<and>
        (\<forall>m. e \<noteq> JsError m) \<longrightarrow>
      fst (updateUserLocation now updateLocation locationData) =
        RejectWithValue ''Failed to update location'')"
  by (auto simp add: updateUserLocation_def createUserLocationWithTimestamp_def Let_def
      split: sum.splits thrown.splits)

theorem updateUserLocation_result_witness:
  "fst (updateUserLocation 1700000000000 (\<lambda>l. Inr ())
      \<lparr>data_latitude = 10, data_longitude = 20\<rparr>) =
     Returned \<lparr>latitude = 10, longitude = 20, accuracy = 0, timestamp = 1700000000000\<rparr> \<and>
   fst (updateUserLocation 1700000000000 (\<lambda>l. Inl (JsError ''Network Error''))
      \<lparr>data_latitude = 10, data_longitude = 20\<rparr>) = RejectWithValue ''Network Error'' \<and>
   fst (updateUserLocation 1700000000000 (\<lambda>l. Inl (NonError ''503''))
      \<lparr>data_latitude = 10, data_longitude = 20\<rparr>) =
     RejectWithValue ''Failed to update location''"
  using updateUserLocation_result
    [where now = 1700000000000 and updateLocation = "\<lambda>l. Inr ()"
       and locationData = "\<lparr>data_latitude = 10, data_longitude = 20\<rparr>"]
    updateUserLocation_result
    [where now = 1700000000000 and updateLocation = "\<lambda>l. Inl (JsError ''Network Error'')"
       and locationData = "\<lparr>data_latitude = 10, data_longitude = 20\<rparr>"]
    updateUserLocation_result
    [where now = 1700000000000 and updateLocation = "\<lambda>l. Inl (NonError ''503'')"
       and locationData = "\<lparr>data_latitude = 10, data_longitude = 20\<rparr>"]
  by (simp add: createUserLocationWithTimestamp_def)

end
